theory Spec2Isabelle
  imports Complex_Main
begin

section \<open>Errors and datasets\<close>

text \<open>
  The Python exceptions raised by \<^verbatim>\<open>ocpmodels/trainers/mt/dataset_transform.py\<close> and
  \<^verbatim>\<open>ocpmodels/trainers/mt/dataset.py\<close>, and by the library calls they make. The
  specification's names are: \<open>SizeMismatch\<close> for the \<open>ValueError\<close> of the size checks,
  \<open>IndexOutOfRange\<close> for \<open>IndexError\<close>, \<open>NotSized\<close> and \<open>TypeMismatch\<close> for \<open>TypeError\<close>,
  \<open>MissingField\<close> for the \<open>AssertionError\<close> of the field lookups and
  \<open>UnsupportedSamplingPolicy\<close> for \<open>NotImplementedError\<close>.
  \<open>NonFinite\<close> is not a Python exception: it marks the places where numpy would go on
  with \<open>inf\<close> or \<open>nan\<close> (a division by zero inside an array expression of
  \<^verbatim>\<open>_merged_dataset\<close>), values the resampling arithmetic below does not represent.
\<close>

datatype error =
    TypeError
  | ValueError
  | IndexError
  | ZeroDivisionError
  | AssertionError
  | AttributeError
  | NotImplementedError
  | RuntimeError
  | EinopsError
  | OverflowError
  | NonFinite

text \<open>
  A dataset is what the code uses of a \<^verbatim>\<open>torch.utils.data.Dataset\<close>: \<^verbatim>\<open>len(d)\<close>
  (a \<open>TypeError\<close> when the object has no length), \<^verbatim>\<open>d[idx]\<close> and the derived
  property \<^verbatim>\<open>d.atoms_metadata\<close> (an \<open>AttributeError\<close> when the object has none).
\<close>

record 'a dataset =
  ds_len :: "error + nat"
  ds_getitem :: "int \<Rightarrow> error + 'a"
  atoms_metadata :: "error + int list"

text \<open>\<^verbatim>\<open>r[i]\<close> for the result \<open>r\<close> of a constructor that may have raised.\<close>

definition getitem_of :: "error + 'a dataset \<Rightarrow> int \<Rightarrow> error + 'a" where
  "getitem_of r i = (case r of Inl e \<Rightarrow> Inl e | Inr d \<Rightarrow> ds_getitem d i)"

text \<open>\<^verbatim>\<open>len(r)\<close> for the result \<open>r\<close> of a constructor that may have raised.\<close>

definition len_of :: "error + 'a dataset \<Rightarrow> error + nat" where
  "len_of r = (case r of Inl e \<Rightarrow> Inl e | Inr d \<Rightarrow> ds_len d)"

text \<open>
  An in-memory dataset over a Python list, with a metadata array: the datasets the
  concrete examples below run on. Indexing is Python's list indexing.
\<close>

definition list_dataset :: "'a list \<Rightarrow> int list \<Rightarrow> 'a dataset" where
  "list_dataset xs md =
     \<lparr> ds_len = Inr (length xs),
       ds_getitem = (\<lambda>idx.
         let k = int (length xs); j = (if idx < 0 then k + idx else idx)
         in if 0 \<le> j \<and> j < k then Inr (xs ! nat j) else Inl IndexError),
       atoms_metadata = Inr md \<rparr>"

section \<open>Dataset transforms (dataset\_transform.py)\<close>

text \<open>\<^verbatim>\<open>copy.deepcopy\<close>: values are immutable here, so the copy is the value.\<close>

definition deepcopy :: "'a \<Rightarrow> 'a" where
  "deepcopy data = data"

text \<open>
  \<^verbatim>\<open>dataset_transform(dataset, transform, copy_data)\<close>: the proxy overrides
  \<^verbatim>\<open>__getitem__\<close> only; \<^verbatim>\<open>wrapt.ObjectProxy\<close> forwards the length and every
  other attribute to the wrapped dataset. The transform is checked against \<open>None\<close>
  before the wrapped dataset is read.
\<close>

definition dataset_transform ::
  "'a dataset \<Rightarrow> ('a \<Rightarrow> error + 'b) option \<Rightarrow> bool \<Rightarrow> 'b dataset" where
  "dataset_transform dataset transform copy_data =
     \<lparr> ds_len = ds_len dataset,
       ds_getitem = (\<lambda>idx.
         case transform of
           None \<Rightarrow> Inl AssertionError
         | Some f \<Rightarrow>
             (case ds_getitem dataset idx of
                Inl e \<Rightarrow> Inl e
              | Inr data \<Rightarrow> f (if copy_data then deepcopy data else data))),
       atoms_metadata = atoms_metadata dataset \<rparr>"

text \<open>
  \<^verbatim>\<open>np.resize(a, (k,))\<close> on a one-dimensional array: repeated copies of \<open>a\<close>, and
  zeros when \<open>a\<close> is empty.
\<close>

definition np_resize :: "int list \<Rightarrow> nat \<Rightarrow> int list" where
  "np_resize a k =
     (if a = [] then replicate k 0 else map (\<lambda>i. a ! (i mod length a)) [0..<k])"

text \<open>
  \<^verbatim>\<open>expand_dataset(dataset, n)\<close>. A dataset without a length raises \<open>TypeError\<close>
  (from the \<^verbatim>\<open>isinstance\<close> check, or from \<^verbatim>\<open>len\<close> itself when a proxy hides
  the missing method). The index check comes before the modulo, and the modulo raises
  \<open>ZeroDivisionError\<close> when the wrapped dataset is empty.
\<close>

definition expand_dataset :: "'a dataset \<Rightarrow> int \<Rightarrow> error + 'a dataset" where
  "expand_dataset dataset n =
     (case ds_len dataset of
        Inl e \<Rightarrow> Inl e
      | Inr og_size \<Rightarrow>
          if int og_size > n then Inl ValueError
          else Inr
            \<lparr> ds_len = Inr (nat n),
              ds_getitem = (\<lambda>index.
                if index < 0 \<or> index \<ge> n then Inl IndexError
                else if og_size = 0 then Inl ZeroDivisionError
                else ds_getitem dataset (index mod int og_size)),
              atoms_metadata =
                (case atoms_metadata dataset of
                   Inl e \<Rightarrow> Inl e
                 | Inr metadata \<Rightarrow> Inr (np_resize metadata (nat n))) \<rparr>)"

text \<open>
  \<^verbatim>\<open>len(x)\<close> of an object whose \<^verbatim>\<open>__len__\<close> returns \<open>n\<close>: Python raises
  \<open>ValueError\<close> for a negative result.
\<close>

definition py_len_result :: "int \<Rightarrow> error + nat" where
  "py_len_result n = (if n < 0 then Inl ValueError else Inr (nat n))"

text \<open>The slice \<^verbatim>\<open>xs[:n]\<close>; a negative \<open>n\<close> counts from the end.\<close>

definition py_slice_to :: "'a list \<Rightarrow> int \<Rightarrow> 'a list" where
  "py_slice_to xs n =
     (if n < 0 then take (nat (int (length xs) + n)) xs else take (nat n) xs)"

text \<open>\<^verbatim>\<open>first_n_transform(dataset, n)\<close>.\<close>

definition first_n_transform :: "'a dataset \<Rightarrow> int \<Rightarrow> error + 'a dataset" where
  "first_n_transform dataset n =
     (case ds_len dataset of
        Inl e \<Rightarrow> Inl e
      | Inr l \<Rightarrow>
          if int l < n then Inl ValueError
          else Inr
            \<lparr> ds_len = py_len_result n,
              ds_getitem = (\<lambda>idx.
                if idx < 0 \<or> idx \<ge> n then Inl IndexError
                else ds_getitem dataset idx),
              atoms_metadata =
                (case atoms_metadata dataset of
                   Inl e \<Rightarrow> Inl e
                 | Inr metadata \<Rightarrow> Inr (py_slice_to metadata n)) \<rparr>)"

text \<open>
  The expression \<^verbatim>\<open>np.random.default_rng(seed).choice(a, size, replace=r)\<close> is
  numpy's, not this repository's: it is a parameter of the model, a function of the
  seed, the population size \<open>a\<close>, the number of draws and the replacement flag, since
  the generator is created from the seed at the call and used once. It may raise
  (numpy rejects a negative seed or a negative size).
\<close>

type_synonym rng_choice = "int \<Rightarrow> nat \<Rightarrow> int \<Rightarrow> bool \<Rightarrow> error + nat list"

text \<open>\<^verbatim>\<open>a[idxs]\<close> for an array of non-negative indices.\<close>

definition np_take :: "int list \<Rightarrow> nat list \<Rightarrow> error + int list" where
  "np_take a idxs =
     (if list_all (\<lambda>i. i < length a) idxs then Inr (map (\<lambda>i. a ! i) idxs)
      else Inl IndexError)"

text \<open>
  The local \<^verbatim>\<open>sampled_indices\<close> of \<^verbatim>\<open>sample_n_transform\<close>, with the two checks
  that precede it.
\<close>

definition sample_n_indices ::
  "rng_choice \<Rightarrow> 'a dataset \<Rightarrow> int \<Rightarrow> int \<Rightarrow> error + nat list" where
  "sample_n_indices rng dataset n seed =
     (case ds_len dataset of
        Inl e \<Rightarrow> Inl e
      | Inr l \<Rightarrow> if int l < n then Inl ValueError else rng seed l n False)"

text \<open>\<^verbatim>\<open>sample_n_transform(dataset, n, seed)\<close>.\<close>

definition sample_n_transform ::
  "rng_choice \<Rightarrow> 'a dataset \<Rightarrow> int \<Rightarrow> int \<Rightarrow> error + 'a dataset" where
  "sample_n_transform rng dataset n seed =
     (case sample_n_indices rng dataset n seed of
        Inl e \<Rightarrow> Inl e
      | Inr sampled_indices \<Rightarrow>
          Inr
            \<lparr> ds_len = py_len_result n,
              ds_getitem = (\<lambda>idx.
                if idx < 0 \<or> idx \<ge> n then Inl IndexError
                else if nat idx < length sampled_indices
                  then ds_getitem dataset (int (sampled_indices ! nat idx))
                  else Inl IndexError),
              atoms_metadata =
                (case atoms_metadata dataset of
                   Inl e \<Rightarrow> Inl e
                 | Inr metadata \<Rightarrow> np_take metadata sampled_indices) \<rparr>)"

text \<open>
  A generator for the concrete examples: the draw without replacement is the first
  \<open>cnt\<close> entries of \<open>range(a)\<close> rotated by the seed.
\<close>

definition rotate_rng :: rng_choice where
  "rotate_rng seed a cnt replace =
     (if seed < 0 \<or> cnt < 0 then Inl ValueError
      else if replace then Inr (replicate (nat cnt) 0)
      else if int a < cnt then Inl ValueError
      else Inr (take (nat cnt) (rotate (nat seed) [0..<a])))"

section \<open>Tensors and items\<close>

text \<open>
  An element of a tensor, or a Python float: a finite number, an infinity or \<open>nan\<close>.
  A boolean is 0 or 1. The sign of a zero is not represented.
\<close>

datatype elem = Fin real | PosInf | NegInf | NaN

text \<open>
  The product of two elements. A product with \<open>nan\<close> is \<open>nan\<close>, and so is the product
  of an infinity and zero. The product of two finite numbers is not rounded: the code
  multiplies by the elements of a boolean tensor only, and a product with 0 or 1 is
  exact.
\<close>

fun elem_mul :: "elem \<Rightarrow> elem \<Rightarrow> elem" where
  "elem_mul NaN _ = NaN"
| "elem_mul _ NaN = NaN"
| "elem_mul (Fin x) (Fin y) = Fin (x * y)"
| "elem_mul (Fin x) PosInf = (if x = 0 then NaN else if 0 < x then PosInf else NegInf)"
| "elem_mul (Fin x) NegInf = (if x = 0 then NaN else if 0 < x then NegInf else PosInf)"
| "elem_mul PosInf (Fin y) = (if y = 0 then NaN else if 0 < y then PosInf else NegInf)"
| "elem_mul NegInf (Fin y) = (if y = 0 then NaN else if 0 < y then NegInf else PosInf)"
| "elem_mul PosInf PosInf = PosInf"
| "elem_mul PosInf NegInf = NegInf"
| "elem_mul NegInf PosInf = NegInf"
| "elem_mul NegInf NegInf = PosInf"

text \<open>
  What an element becomes in a slot where the one-hot vector is false: zero when it is
  finite, \<open>nan\<close> when it is an infinity or \<open>nan\<close>.
\<close>

fun zero_or_nan :: "elem \<Rightarrow> elem" where
  "zero_or_nan (Fin x) = Fin 0"
| "zero_or_nan PosInf = NaN"
| "zero_or_nan NegInf = NaN"
| "zero_or_nan NaN = NaN"

text \<open>
  What the code uses of a torch tensor: an element type, a shape and the elements in
  row-major order.
\<close>

datatype dtype = TFloat | TLong | TBool

datatype tensor = Tensor (dtype: dtype) (shape: "nat list") (elems: "elem list")

text \<open>Type promotion of \<^verbatim>\<open>a * b\<close> for the three element types.\<close>

fun promote :: "dtype \<Rightarrow> dtype \<Rightarrow> dtype" where
  "promote TFloat _ = TFloat"
| "promote _ TFloat = TFloat"
| "promote TLong _ = TLong"
| "promote _ TLong = TLong"
| "promote TBool TBool = TBool"

text \<open>
  The value of a field of an item: a tensor, a Python number, a sequence of numbers,
  \<open>None\<close>, or something \<^verbatim>\<open>torch.tensor\<close> cannot convert (a string, say).
\<close>

datatype pyval =
    PyTensor tensor
  | PyFloat elem
  | PyInt int
  | PyList "elem list"
  | PyNone
  | PyOther

text \<open>
  An item is a \<^verbatim>\<open>torch_geometric.data.Data\<close> record, represented by the fields
  that are stored on it, or an object of another class.
\<close>

datatype item = Data "string \<Rightarrow> pyval option" | NotData

text \<open>\<^verbatim>\<open>getattr(data, key, None)\<close>\<close>

definition getattr :: "(string \<Rightarrow> pyval option) \<Rightarrow> string \<Rightarrow> pyval" where
  "getattr flds key = (case flds key of None \<Rightarrow> PyNone | Some v \<Rightarrow> v)"

text \<open>
  The call \<^verbatim>\<open>torch.tensor(value, dtype=torch.float)\<close> on a value that is not a tensor
  is torch's, not this repository's: it is a parameter of the model, which returns the
  shape and the float32 elements of the new tensor (a Python float is rounded to
  float32, and becomes an infinity when it is too large), or raises.
\<close>

type_synonym tensor_ctor = "pyval \<Rightarrow> error + nat list \<times> elem list"

text \<open>\<^verbatim>\<open>value.view(-1)\<close>: one axis, as long as the tensor has elements.\<close>

definition view_flat :: "tensor \<Rightarrow> tensor" where
  "view_flat t = Tensor (dtype t) [length (elems t)] (elems t)"

text \<open>\<^verbatim>\<open>rearrange(v, "1 -> 1 1")\<close>: the input has one axis, of length 1.\<close>

definition rearrange_1_to_1_1 :: "tensor \<Rightarrow> error + tensor" where
  "rearrange_1_to_1_1 t =
     (if shape t = [1] then Inr (Tensor (dtype t) [1, 1] (elems t)) else Inl EinopsError)"

text \<open>\<^verbatim>\<open>rearrange(onehot, "t -> 1 t")\<close>\<close>

definition rearrange_t_to_1_t :: "tensor \<Rightarrow> error + tensor" where
  "rearrange_t_to_1_t t =
     (case shape t of
        [k] \<Rightarrow> Inr (Tensor (dtype t) [1, k] (elems t))
      | _ \<Rightarrow> Inl EinopsError)"

text \<open>\<^verbatim>\<open>rearrange(value, "n ... -> n ... 1")\<close>: the input has at least one axis.\<close>

definition rearrange_append_1 :: "tensor \<Rightarrow> error + tensor" where
  "rearrange_append_1 t =
     (if shape t = [] then Inl EinopsError
      else Inr (Tensor (dtype t) (shape t @ [1]) (elems t)))"

text \<open>
  \<^verbatim>\<open>rearrange(value, "n ... t -> n t ...")\<close>: the last axis becomes the second. With
  \<open>m\<close> the product of the middle axes, entry \<open>(i, j, r)\<close> of the result is entry
  \<open>(i, r, j)\<close> of the input.
\<close>

definition rearrange_last_to_second :: "tensor \<Rightarrow> error + tensor" where
  "rearrange_last_to_second t =
     (case shape t of
        [] \<Rightarrow> Inl EinopsError
      | [n] \<Rightarrow> Inl EinopsError
      | n # rest \<Rightarrow>
          (let k = last rest; mid = butlast rest; m = prod_list mid
           in Inr (Tensor (dtype t) (n # k # mid)
                (concat (map (\<lambda>i. concat (map (\<lambda>j.
                   map (\<lambda>r. elems t ! ((i * m + r) * k + j)) [0..<m]) [0..<k])) [0..<n])))))"

text \<open>
  \<^verbatim>\<open>a * b\<close> with broadcasting, for the shapes the code multiplies: \<open>a\<close> ends in an
  axis of length 1 and \<open>b\<close> has one axis, so every element of \<open>a\<close> is multiplied by
  the whole of \<open>b\<close>. No other pair of shapes reaches the multiplication.
\<close>

definition tensor_mul :: "tensor \<Rightarrow> tensor \<Rightarrow> error + tensor" where
  "tensor_mul a b =
     (case shape b of
        [k] \<Rightarrow>
          if shape a \<noteq> [] \<and> last (shape a) = 1
          then Inr (Tensor (promote (dtype a) (dtype b)) (butlast (shape a) @ [k])
                 (concat (map (\<lambda>x. map (\<lambda>y. elem_mul x y) (elems b)) (elems a))))
          else Inl RuntimeError
      | _ \<Rightarrow> Inl RuntimeError)"

text \<open>
  \<^verbatim>\<open>F.one_hot(torch.tensor(c, dtype=torch.long), num_classes=k)\<close> on the CPU: class
  values are non-negative and smaller than \<open>k\<close>, and \<open>k = -1\<close> asks for \<open>c + 1\<close>
  classes. The result has one axis.
\<close>

definition one_hot :: "int \<Rightarrow> int \<Rightarrow> error + tensor" where
  "one_hot c num_classes =
     (if c < 0 then Inl RuntimeError
      else if num_classes = - 1
        then Inr (Tensor TLong [nat c + 1]
               (map (\<lambda>j. if j = nat c then Fin 1 else Fin 0) [0..<nat c + 1]))
      else if num_classes \<le> c then Inl RuntimeError
      else Inr (Tensor TLong [nat num_classes]
             (map (\<lambda>j. if j = nat c then Fin 1 else Fin 0) [0..<nat num_classes])))"

text \<open>\<^verbatim>\<open>t.bool()\<close>\<close>

definition to_bool :: "tensor \<Rightarrow> tensor" where
  "to_bool t =
     Tensor TBool (shape t) (map (\<lambda>x. if x = Fin 0 then Fin 0 else Fin 1) (elems t))"

section \<open>Task tagging (dataset.py)\<close>

text \<open>
  \<^verbatim>\<open>_update_graph_value(data, key, onehot)\<close> on the fields of \<open>data\<close>; the result is
  the fields after \<^verbatim>\<open>setattr\<close>.
\<close>

definition update_graph_value ::
  "tensor_ctor \<Rightarrow> (string \<Rightarrow> pyval option) \<Rightarrow> string \<Rightarrow> tensor \<Rightarrow>
   error + (string \<Rightarrow> pyval option)" where
  "update_graph_value torch_tensor flds key onehot =
     (case getattr flds key of
        PyNone \<Rightarrow> Inl AssertionError
      | v \<Rightarrow>
          (case (case v of
                   PyTensor t \<Rightarrow> Inr t
                 | _ \<Rightarrow> (case torch_tensor v of
                           Inl e \<Rightarrow> Inl e
                         | Inr (sh, xs) \<Rightarrow> Inr (Tensor TFloat sh xs))) of
             Inl e \<Rightarrow> Inl e
           | Inr value \<Rightarrow>
               (case rearrange_1_to_1_1 (view_flat value) of
                  Inl e \<Rightarrow> Inl e
                | Inr col \<Rightarrow>
                    (case tensor_mul col onehot of
                       Inl e \<Rightarrow> Inl e
                     | Inr r \<Rightarrow> Inr (flds(key @ ''_onehot'' \<mapsto> PyTensor r))))))"

text \<open>
  The tensor that \<^verbatim>\<open>_update_graph_value\<close> stores for a field value that is not
  \<open>None\<close>: lines 29 to 33.
\<close>

definition stored_graph_value :: "tensor_ctor \<Rightarrow> pyval \<Rightarrow> tensor \<Rightarrow> error + tensor" where
  "stored_graph_value torch_tensor v onehot =
     (case (case v of
              PyTensor t \<Rightarrow> Inr t
            | _ \<Rightarrow> (case torch_tensor v of
                      Inl e \<Rightarrow> Inl e
                    | Inr (sh, xs) \<Rightarrow> Inr (Tensor TFloat sh xs))) of
        Inl e \<Rightarrow> Inl e
      | Inr value \<Rightarrow>
          (case rearrange_1_to_1_1 (view_flat value) of
             Inl e \<Rightarrow> Inl e
           | Inr col \<Rightarrow> tensor_mul col onehot))"

text \<open>
  The scalar of a field value, as the specification describes it: the single element
  of the value once it is flattened, with the element type of a tensor, or float for a
  value that is first converted to a float tensor. \<open>None\<close> when the value has no
  single element or cannot be converted.
\<close>

definition scalar_of :: "tensor_ctor \<Rightarrow> pyval \<Rightarrow> (dtype \<times> elem) option" where
  "scalar_of torch_tensor v =
     (case v of
        PyTensor t \<Rightarrow> (case elems t of [x] \<Rightarrow> Some (dtype t, x) | _ \<Rightarrow> None)
      | PyNone \<Rightarrow> None
      | _ \<Rightarrow> (case torch_tensor v of
                Inr (sh, [x]) \<Rightarrow> Some (TFloat, x)
              | _ \<Rightarrow> None))"

text \<open>\<^verbatim>\<open>_update_node_value(data, key, onehot)\<close>\<close>

definition update_node_value ::
  "(string \<Rightarrow> pyval option) \<Rightarrow> string \<Rightarrow> tensor \<Rightarrow> error + (string \<Rightarrow> pyval option)" where
  "update_node_value flds key onehot =
     (case getattr flds key of
        PyNone \<Rightarrow> Inl AssertionError
      | PyTensor value \<Rightarrow>
          (case rearrange_append_1 value of
             Inl e \<Rightarrow> Inl e
           | Inr col \<Rightarrow>
               (case tensor_mul col onehot of
                  Inl e \<Rightarrow> Inl e
                | Inr r \<Rightarrow>
                    (case (if length (shape r) > 2 then rearrange_last_to_second r else Inr r) of
                       Inl e \<Rightarrow> Inl e
                     | Inr r' \<Rightarrow> Inr (flds(key @ ''_onehot'' \<mapsto> PyTensor r')))))
      | _ \<Rightarrow> Inl AssertionError)"

text \<open>
  The loops \<^verbatim>\<open>for key in ...: update(data, key, onehot)\<close>: the keys in order, the
  first exception ends the loop.
\<close>

fun for_keys ::
  "((string \<Rightarrow> pyval option) \<Rightarrow> string \<Rightarrow> tensor \<Rightarrow> error + (string \<Rightarrow> pyval option)) \<Rightarrow>
   string list \<Rightarrow> tensor \<Rightarrow> (string \<Rightarrow> pyval option) \<Rightarrow> error + (string \<Rightarrow> pyval option)" where
  "for_keys update [] onehot flds = Inr flds"
| "for_keys update (key # keys) onehot flds =
     (case update flds key onehot of
        Inl e \<Rightarrow> Inl e
      | Inr flds' \<Rightarrow> for_keys update keys onehot flds')"

text \<open>
  Modelled from the spec: the configuration classes of \<^verbatim>\<open>config.py\<close>, which the
  sources do not include. \<open>OneHotTargetsConfig\<close> lists the graph-level and node-level
  field names; \<open>SamplingConfig\<close> is a tagged choice between \<open>FullyBalanced\<close> and
  \<open>Temperature(T)\<close> (a third constructor stands for any other object, which the code
  rejects); a \<open>TaskDatasetConfig\<close> has optional train, val and test split
  configurations.
\<close>

record OneHotTargetsConfig =
  graph_level :: "string list"
  node_level :: "string list"

datatype SamplingConfig =
    FullyBalancedSamplingConfig
  | TemperatureSamplingConfig (temperature: real)
  | OtherSamplingConfig

record 'c TaskDatasetConfig =
  train :: "'c option"
  val :: "'c option"
  test :: "'c option"

text \<open>
  The nested function \<^verbatim>\<open>_transform(data)\<close> of \<^verbatim>\<open>_create_split_dataset\<close>, with
  the variables it closes over as arguments.
\<close>

definition transform ::
  "tensor_ctor \<Rightarrow> int \<Rightarrow> int \<Rightarrow> OneHotTargetsConfig \<Rightarrow> item \<Rightarrow> error + item" where
  "transform torch_tensor task_idx total_num_tasks one_hot_targets data =
     (case data of
        NotData \<Rightarrow> Inl TypeError
      | Data flds \<Rightarrow>
          (let flds1 = flds(''task_idx'' \<mapsto>
                             PyTensor (Tensor TLong [] [Fin (of_int task_idx)]))
           in case one_hot task_idx total_num_tasks of
                Inl e \<Rightarrow> Inl e
              | Inr oh \<Rightarrow>
                  (let onehot = to_bool oh
                   in case rearrange_t_to_1_t onehot of
                        Inl e \<Rightarrow> Inl e
                      | Inr task_mask \<Rightarrow>
                          (let flds2 = flds1(''task_mask'' \<mapsto> PyTensor task_mask)
                           in case for_keys (update_graph_value torch_tensor)
                                     (graph_level one_hot_targets) onehot flds2 of
                                Inl e \<Rightarrow> Inl e
                              | Inr flds3 \<Rightarrow>
                                  (case for_keys update_node_value
                                          (node_level one_hot_targets) onehot flds3 of
                                     Inl e \<Rightarrow> Inl e
                                   | Inr flds4 \<Rightarrow> Inr (Data flds4))))))"

text \<open>
  \<^verbatim>\<open>_create_split_dataset\<close>. The dataset registry is outside the repository: it is a
  parameter that builds the raw dataset of a split configuration, or raises.
\<close>

definition create_split_dataset ::
  "('c \<Rightarrow> error + item dataset) \<Rightarrow> tensor_ctor \<Rightarrow> 'c \<Rightarrow> int \<Rightarrow> int \<Rightarrow>
   OneHotTargetsConfig \<Rightarrow> error + item dataset" where
  "create_split_dataset registry torch_tensor config task_idx total_num_tasks one_hot_targets =
     (case registry config of
        Inl e \<Rightarrow> Inl e
      | Inr dataset \<Rightarrow>
          Inr (dataset_transform dataset
                 (Some (transform torch_tensor task_idx total_num_tasks one_hot_targets))
                 False))"

text \<open>The dataset of an optional split: \<open>None\<close> when the split is not configured.\<close>

definition create_optional_split ::
  "('c \<Rightarrow> error + item dataset) \<Rightarrow> tensor_ctor \<Rightarrow> 'c option \<Rightarrow> int \<Rightarrow> int \<Rightarrow>
   OneHotTargetsConfig \<Rightarrow> error + item dataset option" where
  "create_optional_split registry torch_tensor config task_idx total_num_tasks one_hot_targets =
     (case config of
        None \<Rightarrow> Inr None
      | Some c \<Rightarrow>
          (case create_split_dataset registry torch_tensor c task_idx total_num_tasks
                  one_hot_targets of
             Inl e \<Rightarrow> Inl e
           | Inr d \<Rightarrow> Inr (Some d)))"

text \<open>\<^verbatim>\<open>_create_task_datasets\<close>: train, then val, then test.\<close>

definition create_task_datasets ::
  "('c \<Rightarrow> error + item dataset) \<Rightarrow> tensor_ctor \<Rightarrow> 'c TaskDatasetConfig \<Rightarrow> int \<Rightarrow> int \<Rightarrow>
   OneHotTargetsConfig \<Rightarrow>
   error + (item dataset option \<times> item dataset option \<times> item dataset option)" where
  "create_task_datasets registry torch_tensor config task_idx total_num_tasks one_hot_targets =
     (case create_optional_split registry torch_tensor (train config) task_idx total_num_tasks
             one_hot_targets of
        Inl e \<Rightarrow> Inl e
      | Inr train_dataset \<Rightarrow>
          (case create_optional_split registry torch_tensor (val config) task_idx total_num_tasks
                  one_hot_targets of
             Inl e \<Rightarrow> Inl e
           | Inr val_dataset \<Rightarrow>
               (case create_optional_split registry torch_tensor (test config) task_idx total_num_tasks
                       one_hot_targets of
                  Inl e \<Rightarrow> Inl e
                | Inr test_dataset \<Rightarrow> Inr (train_dataset, val_dataset, test_dataset))))"

section \<open>Resampling and composition (dataset.py)\<close>

text \<open>
  Arithmetic on numpy's and Python's floats is exact arithmetic on real numbers here:
  the rounding of float64 is not represented. Where numpy would divide by zero inside
  an array expression and continue with \<open>inf\<close> or \<open>nan\<close>, the model stops with
  \<open>NonFinite\<close>. The range of float64 is represented where Python's power is taken, and
  the range of int64 where the counts are cast.
\<close>

text \<open>
  \<^verbatim>\<open>x.astype(int)\<close> on an integral float64: the value when it is in the range of
  int64, and \<open>-2^63\<close> otherwise, which is what the conversion instruction of x86-64
  returns for a value out of range.
\<close>

definition astype_int :: "int \<Rightarrow> int" where
  "astype_int n = (if - (2 ^ 63) \<le> n \<and> n < 2 ^ 63 then n else - (2 ^ 63))"

text \<open>
  An arithmetic operation on two one-dimensional numpy arrays: elementwise when the
  lengths agree, an array of length 1 is broadcast, any other pair of lengths raises
  \<open>ValueError\<close>.
\<close>

definition np_broadcast :: "('a \<Rightarrow> 'b \<Rightarrow> 'c) \<Rightarrow> 'a list \<Rightarrow> 'b list \<Rightarrow> error + 'c list" where
  "np_broadcast f xs ys =
     (if length xs = length ys then Inr (map2 f xs ys)
      else if length xs = 1 then Inr (map (\<lambda>y. f (hd xs) y) ys)
      else if length ys = 1 then Inr (map (\<lambda>x. f x (hd ys)) xs)
      else Inl ValueError)"

text \<open>
  Lines 127 to 134 of \<^verbatim>\<open>_merged_dataset\<close>: the local \<^verbatim>\<open>expansion_factors\<close> before
  it is rescaled. With both lists empty the two sums are the Python integer 0 and the
  division raises; with one list empty the array expression or the minimum that
  follows raises \<open>ValueError\<close>.
\<close>

definition raw_expansion_factors :: "int list \<Rightarrow> real list \<Rightarrow> error + real list" where
  "raw_expansion_factors dataset_sizes_list ratios_list =
     (let dataset_sizes = map real_of_int dataset_sizes_list;
          ratios = ratios_list
      in if dataset_sizes = [] \<and> ratios = [] then Inl ZeroDivisionError
         else if dataset_sizes = [] \<or> ratios = [] then Inl ValueError
         else if sum_list ratios = 0 then
           (case np_broadcast (\<lambda>r s. r / s) ratios dataset_sizes of
              Inl e \<Rightarrow> Inl e
            | Inr _ \<Rightarrow> Inl NonFinite)
         else
           (let target_size = sum_list dataset_sizes / sum_list ratios
            in case np_broadcast (\<lambda>r s. target_size * r / s) ratios dataset_sizes of
                 Inl e \<Rightarrow> Inl e
               | Inr expansion_factors \<Rightarrow>
                   if list_ex (\<lambda>s. s = 0) dataset_sizes then Inl NonFinite
                   else Inr expansion_factors))"

text \<open>
  Line 137: \<^verbatim>\<open>expansion_factors = expansion_factors / np.min(expansion_factors)\<close>.
  The minimum of an empty array raises \<open>ValueError\<close>.
\<close>

definition rescale_factors :: "real list \<Rightarrow> error + real list" where
  "rescale_factors expansion_factors =
     (if expansion_factors = [] then Inl ValueError
      else if Min (set expansion_factors) = 0 then Inl NonFinite
      else Inr (map (\<lambda>f. f / Min (set expansion_factors)) expansion_factors))"

text \<open>
  Lines 140 to 144: the counts, from the sizes and the rescaled factors, which are
  divided by their minimum once more, rounded up and cast to int64.
\<close>

definition samples_per_dataset :: "int list \<Rightarrow> real list \<Rightarrow> error + int list" where
  "samples_per_dataset dataset_sizes_list expansion_factors =
     (if expansion_factors = [] then Inl ValueError
      else if Min (set expansion_factors) = 0 then Inl NonFinite
      else np_broadcast
             (\<lambda>s f. astype_int \<lceil>real_of_int s * (f / Min (set expansion_factors))\<rceil>)
             dataset_sizes_list expansion_factors)"

text \<open>\<^verbatim>\<open>_merged_dataset(dataset_sizes_list, ratios_list)\<close>\<close>

definition merged_dataset :: "int list \<Rightarrow> real list \<Rightarrow> error + int list" where
  "merged_dataset dataset_sizes_list ratios_list =
     (case raw_expansion_factors dataset_sizes_list ratios_list of
        Inl e \<Rightarrow> Inl e
      | Inr raw \<Rightarrow>
          (case rescale_factors raw of
             Inl e \<Rightarrow> Inl e
           | Inr expansion_factors \<Rightarrow>
               samples_per_dataset dataset_sizes_list expansion_factors))"



text \<open>The first exception of a list of results, or all the values.\<close>

fun sequence_err :: "(error + 'a) list \<Rightarrow> error + 'a list" where
  "sequence_err [] = Inr []"
| "sequence_err (r # rs) =
     (case r of
        Inl e \<Rightarrow> Inl e
      | Inr x \<Rightarrow> (case sequence_err rs of Inl e \<Rightarrow> Inl e | Inr xs \<Rightarrow> Inr (x # xs)))"

text \<open>
  Python's \<^verbatim>\<open>x ** y\<close> on floats for \<open>x \<ge> 0\<close>: zero to a negative power raises, a
  power beyond the largest float64 raises \<open>OverflowError\<close>, and a power below half of
  the smallest positive float64 is 0.0.
\<close>

definition py_pow :: "real \<Rightarrow> real \<Rightarrow> error + real" where
  "py_pow x y =
     (if x = 0 then (if y < 0 then Inl ZeroDivisionError else if y = 0 then Inr 1 else Inr 0)
      else if 2 ^ 1024 - 2 ^ 970 \<le> x powr y then Inl OverflowError
      else if x powr y \<le> 1 / 2 ^ 1075 then Inr 0
      else Inr (x powr y))"

text \<open>
  The ratio of one task under temperature sampling:
  \<^verbatim>\<open>(size / total_size) ** (1.0 / sampling.temperature)\<close>.
\<close>

definition temperature_ratio :: "real \<Rightarrow> int \<Rightarrow> int \<Rightarrow> error + real" where
  "temperature_ratio t total_size sz =
     (if total_size = 0 then Inl ZeroDivisionError
      else if t = 0 then Inl ZeroDivisionError
      else py_pow (real_of_int sz / real_of_int total_size) (1 / t))"

text \<open>
  Lines 156 to 168 of \<^verbatim>\<open>_combine_datasets\<close>: the ratios of the sampling policy,
  normalised by their sum.
\<close>

definition sampling_ratios :: "SamplingConfig \<Rightarrow> int list \<Rightarrow> error + real list" where
  "sampling_ratios policy dataset_sizes =
     (case (case policy of
              FullyBalancedSamplingConfig \<Rightarrow> Inr (replicate (length dataset_sizes) 1)
            | TemperatureSamplingConfig t \<Rightarrow>
                sequence_err (map (temperature_ratio t (sum_list dataset_sizes)) dataset_sizes)
            | OtherSamplingConfig \<Rightarrow> Inl NotImplementedError) of
        Inl e \<Rightarrow> Inl e
      | Inr ratios \<Rightarrow>
          if ratios \<noteq> [] \<and> sum_list ratios = 0 then Inl ZeroDivisionError
          else Inr (map (\<lambda>r. r / sum_list ratios) ratios))"

text \<open>
  \<^verbatim>\<open>torch.utils.data.ConcatDataset\<close>: the list is not empty, the length is the sum
  of the lengths, and an index is looked up in the dataset whose range holds it. A
  negative index counts from the end.
\<close>

fun concat_getitem :: "('a dataset \<times> nat) list \<Rightarrow> int \<Rightarrow> error + 'a" where
  "concat_getitem [] idx = Inl IndexError"
| "concat_getitem ((d, l) # rest) idx =
     (if idx < int l then ds_getitem d idx else concat_getitem rest (idx - int l))"

definition ConcatDataset :: "'a dataset list \<Rightarrow> error + 'a dataset" where
  "ConcatDataset dsets =
     (if dsets = [] then Inl AssertionError
      else case sequence_err (map ds_len dsets) of
             Inl e \<Rightarrow> Inl e
           | Inr lens \<Rightarrow>
               Inr \<lparr> ds_len = Inr (sum_list lens),
                     ds_getitem = (\<lambda>idx.
                       if idx < 0 then
                         (if - idx > int (sum_list lens) then Inl ValueError
                          else concat_getitem (zip dsets lens) (int (sum_list lens) + idx))
                       else concat_getitem (zip dsets lens) idx),
                     atoms_metadata = Inl AttributeError \<rparr>)"

text \<open>
  The local \<^verbatim>\<open>expanded_dataset_sizes\<close> of \<^verbatim>\<open>_combine_datasets\<close>, from the sizes of
  the datasets.
\<close>

definition expanded_dataset_sizes :: "SamplingConfig \<Rightarrow> int list \<Rightarrow> error + int list" where
  "expanded_dataset_sizes policy dataset_sizes =
     (case sampling_ratios policy dataset_sizes of
        Inl e \<Rightarrow> Inl e
      | Inr ratios \<Rightarrow> merged_dataset dataset_sizes ratios)"

text \<open>The local \<^verbatim>\<open>expanded_datasets\<close> of \<^verbatim>\<open>_combine_datasets\<close>.\<close>

definition expanded_datasets ::
  "SamplingConfig \<Rightarrow> 'a dataset list \<Rightarrow> error + 'a dataset list" where
  "expanded_datasets policy dsets =
     (case sequence_err (map ds_len dsets) of
        Inl e \<Rightarrow> Inl e
      | Inr lens \<Rightarrow>
          (case expanded_dataset_sizes policy (map int lens) of
             Inl e \<Rightarrow> Inl e
           | Inr sizes \<Rightarrow>
               sequence_err (map (\<lambda>(d, n). expand_dataset d n) (zip dsets sizes))))"

text \<open>\<^verbatim>\<open>_combine_datasets(sampling, datasets)\<close>\<close>

definition combine_datasets :: "SamplingConfig \<Rightarrow> 'a dataset list \<Rightarrow> error + 'a dataset" where
  "combine_datasets policy dsets =
     (case expanded_datasets policy dsets of
        Inl e \<Rightarrow> Inl e
      | Inr expanded \<Rightarrow> ConcatDataset expanded)"

text \<open>
  Modelled from the spec: the class \<open>DatasetConfig\<close> of \<^verbatim>\<open>config.py\<close>, which the
  sources do not include: the task list, the sampling policy and the one-hot targets.
\<close>

record 'c DatasetConfig =
  datasets :: "'c TaskDatasetConfig list"
  sampling :: SamplingConfig
  one_hot_targets :: OneHotTargetsConfig

text \<open>
  The loop of \<^verbatim>\<open>create_datasets\<close> over \<^verbatim>\<open>enumerate(config.datasets)\<close>: the train,
  val and test datasets of the tasks from position \<open>task_idx\<close> on, each list in task
  order and without the splits that are not configured.
\<close>

fun create_all ::
  "('c \<Rightarrow> error + item dataset) \<Rightarrow> tensor_ctor \<Rightarrow> int \<Rightarrow> OneHotTargetsConfig \<Rightarrow> int \<Rightarrow>
   'c TaskDatasetConfig list \<Rightarrow>
   error + (item dataset list \<times> item dataset list \<times> item dataset list)" where
  "create_all registry torch_tensor total_num_tasks oht task_idx [] = Inr ([], [], [])"
| "create_all registry torch_tensor total_num_tasks oht task_idx (c # cs) =
     (case create_task_datasets registry torch_tensor c task_idx total_num_tasks oht of
        Inl e \<Rightarrow> Inl e
      | Inr (tr, va, te) \<Rightarrow>
          (case create_all registry torch_tensor total_num_tasks oht (task_idx + 1) cs of
             Inl e \<Rightarrow> Inl e
           | Inr (trs, vas, tes) \<Rightarrow>
               Inr ((case tr of None \<Rightarrow> [] | Some d \<Rightarrow> [d]) @ trs,
                    (case va of None \<Rightarrow> [] | Some d \<Rightarrow> [d]) @ vas,
                    (case te of None \<Rightarrow> [] | Some d \<Rightarrow> [d]) @ tes)))"

text \<open>A combination that is skipped (\<open>None\<close>) when there is nothing to combine.\<close>

definition if_nonempty ::
  "('a dataset list \<Rightarrow> error + 'a dataset) \<Rightarrow> 'a dataset list \<Rightarrow> error + 'a dataset option" where
  "if_nonempty combine dsets =
     (if dsets = [] then Inr None
      else case combine dsets of Inl e \<Rightarrow> Inl e | Inr d \<Rightarrow> Inr (Some d))"

text \<open>\<^verbatim>\<open>create_datasets(config)\<close>\<close>

definition create_datasets ::
  "('c \<Rightarrow> error + item dataset) \<Rightarrow> tensor_ctor \<Rightarrow> 'c DatasetConfig \<Rightarrow>
   error + (item dataset option \<times> item dataset option \<times> item dataset option)" where
  "create_datasets registry torch_tensor config =
     (let total_num_tasks = int (length (datasets config))
      in if \<not> total_num_tasks > 0 then Inl AssertionError
         else case create_all registry torch_tensor total_num_tasks (one_hot_targets config) 0
                     (datasets config) of
                Inl e \<Rightarrow> Inl e
              | Inr (train_datasets, val_datasets, test_datasets) \<Rightarrow>
                  (case if_nonempty (combine_datasets (sampling config)) train_datasets of
                     Inl e \<Rightarrow> Inl e
                   | Inr train_dataset \<Rightarrow>
                       (case if_nonempty ConcatDataset val_datasets of
                          Inl e \<Rightarrow> Inl e
                        | Inr val_dataset \<Rightarrow>
                            (case if_nonempty ConcatDataset test_datasets of
                               Inl e \<Rightarrow> Inl e
                             | Inr test_dataset \<Rightarrow>
                                 Inr (train_dataset, val_dataset, test_dataset)))))"

section \<open>Concrete inputs\<close>

text \<open>
  A conversion for the concrete examples: it keeps the elements of a Python number or
  sequence, which is what \<^verbatim>\<open>torch.tensor\<close> does with numbers that float32
  represents exactly, such as the 3.0 of the example item.
\<close>

definition example_torch_tensor :: tensor_ctor where
  "example_torch_tensor v =
     (case v of
        PyFloat x \<Rightarrow> Inr ([], [x])
      | PyInt i \<Rightarrow> Inr ([], [Fin (of_int i)])
      | PyList xs \<Rightarrow> Inr ([length xs], xs)
      | _ \<Rightarrow> Inl TypeError)"

text \<open>
  The inputs the concrete examples run on: a configuration with one graph-level and
  one node-level target, an item with an energy and the forces of two nodes, a raw
  dataset holding that item, and the item as the task at position 1 of 3 tags it.
\<close>

definition example_targets :: OneHotTargetsConfig where
  "example_targets = \<lparr> graph_level = [''energy''], node_level = [''forces''] \<rparr>"

definition example_item :: item where
  "example_item =
     Data [''energy'' \<mapsto> PyFloat (Fin 3),
           ''forces'' \<mapsto> PyTensor (Tensor TFloat [2] [Fin 5, Fin 7])]"

definition example_dataset :: "item dataset" where
  "example_dataset = list_dataset [example_item] [2]"

definition example_tagged_item :: item where
  "example_tagged_item =
     Data [''energy'' \<mapsto> PyFloat (Fin 3),
           ''forces'' \<mapsto> PyTensor (Tensor TFloat [2] [Fin 5, Fin 7]),
           ''task_idx'' \<mapsto> PyTensor (Tensor TLong [] [Fin 1]),
           ''task_mask'' \<mapsto> PyTensor (Tensor TBool [1, 3] [Fin 0, Fin 1, Fin 0]),
           ''energy_onehot'' \<mapsto> PyTensor (Tensor TFloat [1, 3] [Fin 0, Fin 3, Fin 0]),
           ''forces_onehot'' \<mapsto>
             PyTensor (Tensor TFloat [2, 3] [Fin 0, Fin 5, Fin 0, Fin 0, Fin 7, Fin 0])]"

text \<open>
  A configuration that names the field \<open>task_idx\<close> as a graph-level target, and the
  item without fields as the task at position 1 of 2 tags it.
\<close>

definition task_idx_targets :: OneHotTargetsConfig where
  "task_idx_targets = \<lparr> graph_level = [''task_idx''], node_level = [] \<rparr>"

definition task_idx_tagged_item :: item where
  "task_idx_tagged_item =
     Data [''task_idx'' \<mapsto> PyTensor (Tensor TLong [] [Fin 1]),
           ''task_mask'' \<mapsto> PyTensor (Tensor TBool [1, 2] [Fin 0, Fin 1]),
           ''task_idx_onehot'' \<mapsto> PyTensor (Tensor TLong [1, 2] [Fin 0, Fin 1])]"

text \<open>
  A configuration with the graph-level target \<open>energy\<close>, an item whose energy is a
  float tensor holding an infinity, and that item as the task at position 1 of 2 tags
  it.
\<close>

definition energy_targets :: OneHotTargetsConfig where
  "energy_targets = \<lparr> graph_level = [''energy''], node_level = [] \<rparr>"

definition infinite_item :: item where
  "infinite_item = Data [''energy'' \<mapsto> PyTensor (Tensor TFloat [] [PosInf])]"

definition infinite_tagged_item :: item where
  "infinite_tagged_item =
     Data [''energy'' \<mapsto> PyTensor (Tensor TFloat [] [PosInf]),
           ''task_idx'' \<mapsto> PyTensor (Tensor TLong [] [Fin 1]),
           ''task_mask'' \<mapsto> PyTensor (Tensor TBool [1, 2] [Fin 0, Fin 1]),
           ''energy_onehot'' \<mapsto> PyTensor (Tensor TFloat [1, 2] [NaN, PosInf])]"

section \<open>Properties of the dataset transforms\<close>

lemma upt_0_2: "[0..<2] = [0, 1]"
  by (simp add: upt_rec)

lemma upt_0_3: "[0..<3] = [0, 1, 2]"
  by (simp add: upt_rec)

text \<open>
  C10. The dataset that \<open>dataset_transform\<close> returns changes item access only: its
  length and its metadata sequence are those of the wrapped dataset.
\<close>

theorem dataset_transform_frame:
  "ds_len (dataset_transform d fn c) = ds_len d \<and>
   atoms_metadata (dataset_transform d fn c) = atoms_metadata d"
  by (simp add: dataset_transform_def)

text \<open>
  C2 as stated fails for an empty dataset: expanded to length 1, the access at index 0
  passes the range check and raises \<open>ZeroDivisionError\<close> in the modulo.
\<close>

theorem expand_dataset_getitem_counterexample:
  "getitem_of (expand_dataset (list_dataset ([]::nat list) []) 1) 0 = Inl ZeroDivisionError \<and>
   len_of (expand_dataset (list_dataset ([]::nat list) []) 1) = Inr 1"
  by (simp add: getitem_of_def len_of_def expand_dataset_def list_dataset_def)

text \<open>
  C2, as amended. For a sized dataset \<open>d\<close> and \<open>n \<ge> len(d)\<close>, the expanded dataset
  reports length \<open>n\<close>; when \<open>d\<close> is not empty, item access at every index \<open>i\<close> with
  \<open>0 \<le> i < n\<close> is item access on \<open>d\<close> at \<open>i mod len(d)\<close>.
\<close>

theorem expand_dataset_getitem:
  assumes "ds_len d = Inr l" and "int l \<le> n"
  shows "\<exists>e. expand_dataset d n = Inr e \<and> ds_len e = Inr (nat n) \<and> int (nat n) = n \<and>
           (0 < l \<longrightarrow> (\<forall>i. 0 \<le> i \<and> i < n \<longrightarrow> ds_getitem e i = ds_getitem d (i mod int l)))"
  using assms by (simp add: expand_dataset_def)

theorem expand_dataset_getitem_witness:
  "ds_len (list_dataset [7, 8, 9 :: nat] []) = Inr 3 \<and> int 3 \<le> 5 \<and>
   len_of (expand_dataset (list_dataset [7, 8, 9 :: nat] []) 5) = Inr 5 \<and>
   getitem_of (expand_dataset (list_dataset [7, 8, 9 :: nat] []) 5) 4 = Inr 8"
  using expand_dataset_getitem [of "list_dataset [7, 8, 9 :: nat] []" 3 5]
  by (auto simp: list_dataset_def getitem_of_def len_of_def)

text \<open>
  C7. For a sized dataset \<open>d\<close> and \<open>n \<ge> len(d)\<close>, item access on the expanded dataset
  at an index outside \<open>[0, n)\<close> raises \<open>IndexError\<close>; so at \<open>n\<close> and at \<open>-1\<close>, which is
  not counted from the end.
\<close>

theorem expand_dataset_out_of_range:
  assumes "ds_len d = Inr l" and "int l \<le> n"
  shows "\<exists>e. expand_dataset d n = Inr e \<and>
           (\<forall>i. i < 0 \<or> n \<le> i \<longrightarrow> ds_getitem e i = Inl IndexError) \<and>
           ds_getitem e n = Inl IndexError \<and> ds_getitem e (- 1) = Inl IndexError"
  using assms by (simp add: expand_dataset_def)

theorem expand_dataset_out_of_range_witness:
  "ds_len (list_dataset [7, 8, 9 :: nat] []) = Inr 3 \<and> int 3 \<le> 5 \<and>
   getitem_of (expand_dataset (list_dataset [7, 8, 9 :: nat] []) 5) 5 = Inl IndexError \<and>
   getitem_of (expand_dataset (list_dataset [7, 8, 9 :: nat] []) 5) (- 1) = Inl IndexError"
  using expand_dataset_out_of_range [of "list_dataset [7, 8, 9 :: nat] []" 3 5]
  by (auto simp: list_dataset_def getitem_of_def)

text \<open>
  C6. \<open>expand_dataset\<close> raises \<open>ValueError\<close> when \<open>n < len(d)\<close>; \<open>first_n_transform\<close>
  and \<open>sample_n_transform\<close> raise it when \<open>n > len(d)\<close>. With \<open>n = len(d)\<close> the three
  constructions succeed (the last one when numpy's generator returns the draw).
\<close>

theorem size_preconditions:
  assumes "ds_len d = Inr l"
  shows "(n < int l \<longrightarrow> expand_dataset d n = Inl ValueError) \<and>
         (int l < n \<longrightarrow> first_n_transform d n = Inl ValueError) \<and>
         (int l < n \<longrightarrow> sample_n_transform rng d n seed = Inl ValueError) \<and>
         \<not> isl (expand_dataset d (int l)) \<and>
         \<not> isl (first_n_transform d (int l)) \<and>
         (\<not> isl (rng seed l (int l) False) \<longrightarrow> \<not> isl (sample_n_transform rng d (int l) seed))"
  using assms
  by (auto simp: expand_dataset_def first_n_transform_def sample_n_transform_def
      sample_n_indices_def split: sum.splits)

theorem size_preconditions_witness:
  "ds_len (list_dataset [7, 8, 9 :: nat] []) = Inr 3 \<and>
   expand_dataset (list_dataset [7, 8, 9 :: nat] []) 2 = Inl ValueError \<and>
   first_n_transform (list_dataset [7, 8, 9 :: nat] []) 4 = Inl ValueError \<and>
   sample_n_transform rotate_rng (list_dataset [7, 8, 9 :: nat] []) 4 1 = Inl ValueError \<and>
   \<not> isl (rotate_rng 1 3 3 False) \<and>
   \<not> isl (expand_dataset (list_dataset [7, 8, 9 :: nat] []) 3) \<and>
   \<not> isl (first_n_transform (list_dataset [7, 8, 9 :: nat] []) 3) \<and>
   \<not> isl (sample_n_transform rotate_rng (list_dataset [7, 8, 9 :: nat] []) 3 1)"
proof -
  have len: "ds_len (list_dataset [7, 8, 9 :: nat] []) = Inr 3"
    by (simp add: list_dataset_def)
  have rng: "\<not> isl (rotate_rng 1 3 3 False)"
    by (simp add: rotate_rng_def)
  show ?thesis
    using len rng size_preconditions [OF len, of 2 rotate_rng 1]
      size_preconditions [OF len, of 4 rotate_rng 1]
    by simp
qed

section \<open>Properties of the resampling\<close>








text \<open>
  C1. FullyBalanced sampling over two train datasets of sizes 10 and 100: the normalised
  ratios are 1/2 and 1/2, the raw expansion factors 11/2 and 11/20 (target size 110),
  the factors rescaled by their minimum 10 and 1, the counts 100 and 100, and the
  combined train dataset has length 200.
\<close>

theorem fully_balanced_worked_example:
  assumes "ds_len d1 = Inr 10" and "ds_len d2 = Inr 100"
  shows "sampling_ratios FullyBalancedSamplingConfig [10, 100] = Inr [1 / 2, 1 / 2] \<and>
         raw_expansion_factors [10, 100] [1 / 2, 1 / 2] = Inr [11 / 2, 11 / 20] \<and>
         rescale_factors [11 / 2, 11 / 20] = Inr [10, 1] \<and>
         merged_dataset [10, 100] [1 / 2, 1 / 2] = Inr [100, 100] \<and>
         expanded_dataset_sizes FullyBalancedSamplingConfig [10, 100] = Inr [100, 100] \<and>
         len_of (expand_dataset d1 100) = Inr 100 \<and>
         len_of (expand_dataset d2 100) = Inr 100 \<and>
         len_of (combine_datasets FullyBalancedSamplingConfig [d1, d2]) = Inr 200"
proof -
  have ratios: "sampling_ratios FullyBalancedSamplingConfig [10, 100] = Inr [1 / 2, 1 / 2]"
    by (simp add: sampling_ratios_def numeral_2_eq_2)
  have raw: "raw_expansion_factors [10, 100] [1 / 2, 1 / 2] = Inr [11 / 2, 11 / 20]"
    by (simp add: raw_expansion_factors_def np_broadcast_def)
  have resc: "rescale_factors [11 / 2, 11 / 20] = Inr [10, 1]"
    by (simp add: rescale_factors_def)
  have cnt: "samples_per_dataset [10, 100] [10, 1] = Inr [100, 100]"
    by (simp add: samples_per_dataset_def np_broadcast_def astype_int_def)
  have merged: "merged_dataset [10, 100] [1 / 2, 1 / 2] = Inr [100, 100]"
    by (simp add: merged_dataset_def raw resc cnt)
  have sizes: "expanded_dataset_sizes FullyBalancedSamplingConfig [10, 100] = Inr [100, 100]"
    by (simp add: expanded_dataset_sizes_def ratios merged)
  have e1: "len_of (expand_dataset d1 100) = Inr 100"
    using assms by (simp add: expand_dataset_def len_of_def)
  have e2: "len_of (expand_dataset d2 100) = Inr 100"
    using assms by (simp add: expand_dataset_def len_of_def)
  have comb: "len_of (combine_datasets FullyBalancedSamplingConfig [d1, d2]) = Inr 200"
    using assms
    by (simp add: combine_datasets_def expanded_datasets_def sizes expand_dataset_def
        ConcatDataset_def len_of_def)
  from ratios raw resc merged sizes e1 e2 comb show ?thesis by blast
qed

theorem fully_balanced_worked_example_witness:
  "ds_len (list_dataset (replicate 10 (0::nat)) []) = Inr 10 \<and>
   ds_len (list_dataset (replicate 100 (1::nat)) []) = Inr 100 \<and>
   len_of (combine_datasets FullyBalancedSamplingConfig
     [list_dataset (replicate 10 (0::nat)) [], list_dataset (replicate 100 1) []]) = Inr 200"
proof -
  have l1: "ds_len (list_dataset (replicate 10 (0::nat)) []) = Inr 10"
    by (simp add: list_dataset_def)
  have l2: "ds_len (list_dataset (replicate 100 (1::nat)) []) = Inr 100"
    by (simp add: list_dataset_def)
  from fully_balanced_worked_example [OF l1 l2] l1 l2 show ?thesis by blast
qed

text \<open>
  C4. The code breaks the claim for the sampling policy Temperature(0.01) over train
  datasets of sizes 10 and 100. The ratios are \<open>1 / (1 + 10^100)\<close> and
  \<open>10^100 / (1 + 10^100)\<close>, the rescaled factors 1 and \<open>10^99\<close>, the second count
  \<open>10^101\<close> is outside int64 and is cast to \<open>-2^63\<close>, and \<open>expand_dataset\<close> raises
  \<open>ValueError\<close> for the second dataset, since 100 is greater than the count.
\<close>

theorem temperature_count_overflow:
  "sampling_ratios (TemperatureSamplingConfig (1 / 100)) [10, 100] =
     Inr [1 / (1 + 10 ^ 100), 10 ^ 100 / (1 + 10 ^ 100)] \<and>
   raw_expansion_factors [10, 100] [1 / (1 + 10 ^ 100), 10 ^ 100 / (1 + 10 ^ 100)] =
     Inr [11 / (1 + 10 ^ 100), 11 * 10 ^ 99 / (1 + 10 ^ 100)] \<and>
   rescale_factors [11 / (1 + 10 ^ 100), 11 * 10 ^ 99 / (1 + 10 ^ 100)] = Inr [1, 10 ^ 99] \<and>
   samples_per_dataset [10, 100] [1, 10 ^ 99] = Inr [10, - (2 ^ 63)] \<and>
   expanded_dataset_sizes (TemperatureSamplingConfig (1 / 100)) [10, 100] =
     Inr [10, - (2 ^ 63)] \<and>
   expand_dataset (list_dataset (replicate 100 (1::nat)) []) (- (2 ^ 63)) = Inl ValueError \<and>
   combine_datasets (TemperatureSamplingConfig (1 / 100))
     [list_dataset (replicate 10 (0::nat)) [], list_dataset (replicate 100 1) []] =
     Inl ValueError"
proof -
  have pow_a: "py_pow (real_of_int 10 / real_of_int 110) (1 / (1 / 100)) = Inr (1 / 11 ^ 100)"
    by (simp add: py_pow_def power_divide)
  have pow_b: "py_pow (real_of_int 100 / real_of_int 110) (1 / (1 / 100)) =
      Inr (10 ^ 100 / 11 ^ 100)"
    by (simp add: py_pow_def power_divide)
  have ratios: "sampling_ratios (TemperatureSamplingConfig (1 / 100)) [10, 100] =
      Inr [1 / (1 + 10 ^ 100), 10 ^ 100 / (1 + 10 ^ 100)]"
    using pow_a pow_b by (simp add: sampling_ratios_def temperature_ratio_def)
  have raw: "raw_expansion_factors [10, 100] [1 / (1 + 10 ^ 100), 10 ^ 100 / (1 + 10 ^ 100)] =
      Inr [11 / (1 + 10 ^ 100), 11 * 10 ^ 99 / (1 + 10 ^ 100)]"
    by (simp add: raw_expansion_factors_def np_broadcast_def)
  have resc: "rescale_factors [11 / (1 + 10 ^ 100), 11 * 10 ^ 99 / (1 + 10 ^ 100)] =
      Inr [1, 10 ^ 99]"
    by (simp add: rescale_factors_def)
  have cnt: "samples_per_dataset [10, 100] [1, 10 ^ 99] = Inr [10, - (2 ^ 63)]"
    by (simp add: samples_per_dataset_def np_broadcast_def astype_int_def)
  have sizes: "expanded_dataset_sizes (TemperatureSamplingConfig (1 / 100)) [10, 100] =
      Inr [10, - (2 ^ 63)]"
    unfolding expanded_dataset_sizes_def ratios merged_dataset_def sum.case raw resc cnt
    by (rule refl)
  have ex: "expand_dataset (list_dataset (replicate 100 (1::nat)) []) (- (2 ^ 63)) =
      Inl ValueError"
    by (simp add: expand_dataset_def list_dataset_def)
  have comb: "combine_datasets (TemperatureSamplingConfig (1 / 100))
      [list_dataset (replicate 10 (0::nat)) [], list_dataset (replicate 100 1) []] =
      Inl ValueError"
  proof -
    have lens: "sequence_err (map ds_len
        [list_dataset (replicate 10 (0::nat)) [], list_dataset (replicate 100 (1::nat)) []]) =
        Inr [10, 100]"
      by (simp add: list_dataset_def)
    have ints: "map int [10, 100] = [10, 100]" by simp
    have ex1: "expand_dataset (list_dataset (replicate 10 (0::nat)) []) 10 \<noteq> Inl ValueError
        \<and> \<not> isl (expand_dataset (list_dataset (replicate 10 (0::nat)) []) 10)"
      by (simp add: expand_dataset_def list_dataset_def)
    show ?thesis
      unfolding combine_datasets_def expanded_datasets_def lens sum.case ints sizes
      using ex ex1 by (auto split: sum.splits)
  qed
  from ratios raw resc cnt sizes ex comb show ?thesis by blast
qed



section \<open>Properties of the task tagging\<close>

lemma elem_mul_one: "elem_mul x (Fin 1) = x"
  by (cases x) simp_all

lemma elem_mul_zero: "elem_mul x (Fin 0) = zero_or_nan x"
  by (cases x) simp_all

lemma update_graph_value_eq:
  "update_graph_value torch_tensor flds key onehot =
     (if getattr flds key = PyNone then Inl AssertionError
      else case stored_graph_value torch_tensor (getattr flds key) onehot of
             Inl e \<Rightarrow> Inl e
           | Inr r \<Rightarrow> Inr (flds(key @ ''_onehot'' \<mapsto> PyTensor r)))"
  by (cases "getattr flds key")
    (simp_all add: update_graph_value_def stored_graph_value_def split: sum.splits)

lemma update_graph_value_other:
  "update_graph_value torch_tensor flds key onehot = Inr flds' \<Longrightarrow>
   name \<noteq> key @ ''_onehot'' \<Longrightarrow> flds' name = flds name"
  by (auto simp: update_graph_value_eq split: if_splits sum.splits)

lemma update_node_value_other:
  "update_node_value flds key onehot = Inr flds' \<Longrightarrow> name \<noteq> key @ ''_onehot'' \<Longrightarrow>
   flds' name = flds name"
  by (auto simp: update_node_value_def split: pyval.splits sum.splits if_splits)

lemma for_keys_other:
  assumes frame: "\<forall>flds key flds' name. update flds key onehot = Inr flds' \<longrightarrow>
             name \<noteq> key @ ''_onehot'' \<longrightarrow> flds' name = flds name"
    and run: "for_keys update keys onehot flds = Inr flds'"
    and name: "\<forall>k\<in>set keys. name \<noteq> k @ ''_onehot''"
  shows "flds' name = flds name"
  using run name
proof (induction keys arbitrary: flds)
  case Nil
  then show ?case by simp
next
  case (Cons k keys)
  from Cons.prems(1) obtain flds1 where u: "update flds k onehot = Inr flds1"
    and r: "for_keys update keys onehot flds1 = Inr flds'"
    by (auto split: sum.splits)
  have "flds' name = flds1 name" using Cons.IH [OF r] Cons.prems(2) by simp
  also have "flds1 name = flds name" using frame u Cons.prems(2) by simp
  finally show ?case .
qed

lemma graph_loop_other:
  assumes "for_keys (update_graph_value torch_tensor) keys onehot flds = Inr flds'"
    and "\<forall>k\<in>set keys. name \<noteq> k @ ''_onehot''"
  shows "flds' name = flds name"
proof (rule for_keys_other [where update = "update_graph_value torch_tensor", OF _ assms])
  show "\<forall>flds key flds' name. update_graph_value torch_tensor flds key onehot = Inr flds' \<longrightarrow>
          name \<noteq> key @ ''_onehot'' \<longrightarrow> flds' name = flds name"
    using update_graph_value_other by blast
qed

lemma node_loop_other:
  assumes "for_keys update_node_value keys onehot flds = Inr flds'"
    and "\<forall>k\<in>set keys. name \<noteq> k @ ''_onehot''"
  shows "flds' name = flds name"
proof (rule for_keys_other [where update = update_node_value, OF _ assms])
  show "\<forall>flds key flds' name. update_node_value flds key onehot = Inr flds' \<longrightarrow>
          name \<noteq> key @ ''_onehot'' \<longrightarrow> flds' name = flds name"
    using update_node_value_other by blast
qed

lemma task_idx_not_onehot: "''task_idx'' \<noteq> k @ ''_onehot''"
proof
  assume "''task_idx'' = k @ ''_onehot''"
  then have "last ''task_idx'' = last (k @ ''_onehot'')" by simp
  then show False by simp
qed

lemma task_mask_not_onehot: "''task_mask'' \<noteq> k @ ''_onehot''"
proof
  assume "''task_mask'' = k @ ''_onehot''"
  then have "last ''task_mask'' = last (k @ ''_onehot'')" by simp
  then show False by simp
qed

lemma one_hot_in_range:
  assumes "0 \<le> c" and "c < n"
  shows "one_hot c n = Inr (Tensor TLong [nat n]
           (map (\<lambda>j. if j = nat c then Fin 1 else Fin 0) [0..<nat n]))"
  using assms by (simp add: one_hot_def)

lemma to_bool_one_hot:
  "to_bool (Tensor TLong [k] (map (\<lambda>j. if j = c then Fin 1 else Fin 0) [0..<k])) =
   Tensor TBool [k] (map (\<lambda>j. if j = c then Fin 1 else Fin 0) [0..<k])"
  by (simp add: to_bool_def)

lemma filter_one_hot:
  assumes "c < k"
  shows "filter (\<lambda>x. x \<noteq> Fin 0) (map (\<lambda>j. if j = c then Fin 1 else Fin 0) [0..<k]) = [Fin 1]"
proof -
  have split: "[0..<k] = [0..<c] @ c # [Suc c..<k]"
    using assms by (metis less_imp_le_nat upt_add_eq_append upt_conv_Cons le0 le_add_diff_inverse)
  show ?thesis
    unfolding split by (simp add: filter_empty_conv)
qed

lemma transform_Data:
  assumes "0 \<le> task_idx" and "task_idx < total_num_tasks"
  shows "transform torch_tensor task_idx total_num_tasks oht (Data flds) =
     (case for_keys (update_graph_value torch_tensor) (graph_level oht)
             (Tensor TBool [nat total_num_tasks]
                (map (\<lambda>j. if j = nat task_idx then Fin 1 else Fin 0) [0..<nat total_num_tasks]))
             (flds(''task_idx'' \<mapsto> PyTensor (Tensor TLong [] [Fin (of_int task_idx)]),
                   ''task_mask'' \<mapsto> PyTensor (Tensor TBool [1, nat total_num_tasks]
                      (map (\<lambda>j. if j = nat task_idx then Fin 1 else Fin 0)
                         [0..<nat total_num_tasks])))) of
        Inl e \<Rightarrow> Inl e
      | Inr flds3 \<Rightarrow>
          (case for_keys update_node_value (node_level oht)
                  (Tensor TBool [nat total_num_tasks]
                     (map (\<lambda>j. if j = nat task_idx then Fin 1 else Fin 0)
                        [0..<nat total_num_tasks]))
                  flds3 of
             Inl e \<Rightarrow> Inl e
           | Inr flds4 \<Rightarrow> Inr (Data flds4)))"
  by (simp add: transform_def one_hot_in_range [OF assms] to_bool_one_hot Let_def
      rearrange_t_to_1_t_def)

lemma transform_fields:
  assumes c: "0 \<le> task_idx" "task_idx < total_num_tasks"
    and tr: "transform torch_tensor task_idx total_num_tasks oht data = Inr data'"
    and tmask: "tmask = map (\<lambda>j. if j = nat task_idx then Fin 1 else Fin 0)
                         [0..<nat total_num_tasks]"
  shows "\<exists>flds flds3 flds4.
           data = Data flds \<and> data' = Data flds4 \<and>
           for_keys (update_graph_value torch_tensor) (graph_level oht)
             (Tensor TBool [nat total_num_tasks] tmask)
             (flds(''task_idx'' \<mapsto> PyTensor (Tensor TLong [] [Fin (of_int task_idx)]),
                   ''task_mask'' \<mapsto> PyTensor (Tensor TBool [1, nat total_num_tasks] tmask)))
             = Inr flds3 \<and>
           for_keys update_node_value (node_level oht) (Tensor TBool [nat total_num_tasks] tmask)
             flds3 = Inr flds4"
proof (cases data)
  case NotData
  with tr show ?thesis by (simp add: transform_def)
next
  case (Data flds)
  from tr show ?thesis
    unfolding Data transform_Data [OF c] tmask
    by (simp split: sum.splits)
qed

lemma example_transform:
  "transform example_torch_tensor 1 3 example_targets example_item = Inr example_tagged_item"
  by (simp add: transform_def example_targets_def example_item_def example_tagged_item_def
      one_hot_def to_bool_def rearrange_t_to_1_t_def update_graph_value_def
      update_node_value_def getattr_def view_flat_def rearrange_1_to_1_1_def tensor_mul_def
      rearrange_append_1_def Let_def upt_0_3 example_torch_tensor_def)

lemma example_access:
  "getitem_of (create_split_dataset (\<lambda>c. Inr example_dataset) example_torch_tensor () 1 3
                 example_targets) 0 =
   Inr example_tagged_item"
  by (simp add: getitem_of_def create_split_dataset_def dataset_transform_def
      example_dataset_def list_dataset_def deepcopy_def example_transform)

text \<open>
  C3. Every item that the tagged dataset of the task at position \<open>task_idx\<close> among
  \<open>total_num_tasks\<close> tasks produces has its field \<open>task_idx\<close> set to \<open>task_idx\<close>, and a
  boolean \<open>task_mask\<close> of shape \<open>(1, total_num_tasks)\<close> whose only true entry is at
  position \<open>task_idx\<close>.
\<close>

theorem tagged_item_task_mask:
  assumes "0 \<le> task_idx" and "task_idx < total_num_tasks"
    and "create_split_dataset registry torch_tensor config task_idx total_num_tasks oht =
           Inr tagged"
    and "ds_getitem tagged i = Inr data'"
  shows "\<exists>flds tmask. data' = Data flds \<and>
           flds ''task_idx'' = Some (PyTensor (Tensor TLong [] [Fin (of_int task_idx)])) \<and>
           flds ''task_mask'' = Some (PyTensor (Tensor TBool [1, nat total_num_tasks] tmask)) \<and>
           length tmask = nat total_num_tasks \<and>
           (\<forall>j<nat total_num_tasks. tmask ! j = (if j = nat task_idx then Fin 1 else Fin 0)) \<and>
           filter (\<lambda>x. x \<noteq> Fin 0) tmask = [Fin 1]"
proof -
  from assms(3,4) obtain data where
    tr: "transform torch_tensor task_idx total_num_tasks oht data = Inr data'"
    by (auto simp: create_split_dataset_def dataset_transform_def split: sum.splits)
  define tmask :: "elem list"
    where "tmask = map (\<lambda>j. if j = nat task_idx then Fin 1 else Fin 0) [0..<nat total_num_tasks]"
  from transform_fields [OF assms(1,2) tr tmask_def] obtain flds flds3 flds4 where
    d: "data' = Data flds4"
    and g: "for_keys (update_graph_value torch_tensor) (graph_level oht)
             (Tensor TBool [nat total_num_tasks] tmask)
             (flds(''task_idx'' \<mapsto> PyTensor (Tensor TLong [] [Fin (of_int task_idx)]),
                   ''task_mask'' \<mapsto> PyTensor (Tensor TBool [1, nat total_num_tasks] tmask)))
             = Inr flds3"
    and n: "for_keys update_node_value (node_level oht)
             (Tensor TBool [nat total_num_tasks] tmask) flds3 = Inr flds4"
    by blast
  define flds2 where "flds2 =
    flds(''task_idx'' \<mapsto> PyTensor (Tensor TLong [] [Fin (of_int task_idx)]),
         ''task_mask'' \<mapsto> PyTensor (Tensor TBool [1, nat total_num_tasks] tmask))"
  have keep: "flds4 name = flds2 name" if "\<And>k. name \<noteq> k @ ''_onehot''" for name
  proof -
    have "flds4 name = flds3 name"
      using node_loop_other [OF n] that by blast
    also have "flds3 name = flds2 name"
      unfolding flds2_def using graph_loop_other [OF g] that by blast
    finally show ?thesis .
  qed
  have idx: "flds4 ''task_idx'' = Some (PyTensor (Tensor TLong [] [Fin (of_int task_idx)]))"
    using keep [OF task_idx_not_onehot] by (simp add: flds2_def)
  have msk: "flds4 ''task_mask'' = Some (PyTensor (Tensor TBool [1, nat total_num_tasks] tmask))"
    using keep [OF task_mask_not_onehot] by (simp add: flds2_def)
  have len: "length tmask = nat total_num_tasks" by (simp add: tmask_def)
  have nth: "\<forall>j<nat total_num_tasks. tmask ! j = (if j = nat task_idx then Fin 1 else Fin 0)"
    by (simp add: tmask_def)
  have "nat task_idx < nat total_num_tasks" using assms(1,2) by simp
  then have one: "filter (\<lambda>x. x \<noteq> Fin 0) tmask = [Fin 1]"
    unfolding tmask_def by (rule filter_one_hot)
  from d idx msk len nth one show ?thesis by blast
qed

theorem tagged_item_task_mask_witness:
  "(0::int) \<le> 1 \<and> (1::int) < 3 \<and>
   create_split_dataset (\<lambda>c. Inr example_dataset) example_torch_tensor () 1 3 example_targets =
     Inr (dataset_transform example_dataset
            (Some (transform example_torch_tensor 1 3 example_targets)) False) \<and>
   ds_getitem (dataset_transform example_dataset
                 (Some (transform example_torch_tensor 1 3 example_targets)) False) 0 =
     Inr example_tagged_item \<and>
   (\<exists>flds tmask. example_tagged_item = Data flds \<and>
      flds ''task_idx'' = Some (PyTensor (Tensor TLong [] [Fin 1])) \<and>
      flds ''task_mask'' = Some (PyTensor (Tensor TBool [1, 3] tmask)) \<and>
      length tmask = 3 \<and>
      (\<forall>j<3. tmask ! j = (if j = 1 then Fin 1 else Fin 0)) \<and>
      filter (\<lambda>x. x \<noteq> Fin 0) tmask = [Fin 1])"
proof -
  have h1: "(0::int) \<le> 1" and h2: "(1::int) < 3" by simp_all
  have h3: "create_split_dataset (\<lambda>c. Inr example_dataset) example_torch_tensor () 1 3
      example_targets =
     Inr (dataset_transform example_dataset
            (Some (transform example_torch_tensor 1 3 example_targets)) False)"
    by (simp add: create_split_dataset_def)
  have h4: "ds_getitem (dataset_transform example_dataset
      (Some (transform example_torch_tensor 1 3 example_targets)) False) 0 =
      Inr example_tagged_item"
    using example_access by (simp add: getitem_of_def h3)
  from tagged_item_task_mask [OF h1 h2 h3 h4] h3 h4 show ?thesis by simp
qed

lemma stored_graph_value_one_hot:
  assumes "stored_graph_value torch_tensor v
             (Tensor TBool [n] (map (\<lambda>j. if j = c then Fin 1 else Fin 0) [0..<n])) = Inr r"
    and some: "v \<noteq> PyNone"
  shows "\<exists>dt x. scalar_of torch_tensor v = Some (dt, x) \<and>
           r = Tensor (promote dt TBool) [1, n]
                 (map (\<lambda>j. if j = c then x else zero_or_nan x) [0..<n])"
proof -
  have flat: "\<exists>x. xs = [x] \<and>
      r = Tensor (promote dt TBool) [1, n] (map (\<lambda>j. if j = c then x else zero_or_nan x) [0..<n])"
    if "(case rearrange_1_to_1_1 (view_flat (Tensor dt sh xs)) of
           Inl e \<Rightarrow> Inl e
         | Inr col \<Rightarrow> tensor_mul col
             (Tensor TBool [n] (map (\<lambda>j. if j = c then Fin 1 else Fin 0) [0..<n])))
        = Inr r" for dt sh xs
  proof -
    from that have "length xs = 1"
      by (auto simp: rearrange_1_to_1_1_def view_flat_def split: if_splits)
    then obtain x where xs: "xs = [x]" by (cases xs) auto
    from that show ?thesis
      unfolding xs
      by (auto simp: rearrange_1_to_1_1_def view_flat_def tensor_mul_def elem_mul_one
          elem_mul_zero)
  qed
  have conv: ?thesis
    if nt: "\<And>t. v \<noteq> PyTensor t" and nn: "v \<noteq> PyNone"
  proof (cases "torch_tensor v")
    case (Inl e)
    with assms(1) nt nn show ?thesis
      by (cases v) (auto simp: stored_graph_value_def)
  next
    case (Inr p)
    obtain sh xs where p: "p = (sh, xs)" by (cases p)
    have "(case rearrange_1_to_1_1 (view_flat (Tensor TFloat sh xs)) of
           Inl e \<Rightarrow> Inl e
         | Inr col \<Rightarrow> tensor_mul col
             (Tensor TBool [n] (map (\<lambda>j. if j = c then Fin 1 else Fin 0) [0..<n])))
        = Inr r"
      using assms(1) nt nn Inr p by (cases v) (auto simp: stored_graph_value_def)
    from flat [OF this] obtain x where xs: "xs = [x]"
      and r: "r = Tensor (promote TFloat TBool) [1, n]
                    (map (\<lambda>j. if j = c then x else zero_or_nan x) [0..<n])"
      by blast
    have "scalar_of torch_tensor v = Some (TFloat, x)"
      using nt nn Inr p xs by (cases v) (auto simp: scalar_of_def)
    with r show ?thesis by blast
  qed
  show ?thesis
  proof (cases v)
    case (PyTensor t)
    obtain dt sh xs where t: "t = Tensor dt sh xs" by (cases t)
    from assms(1) flat [of dt sh xs] show ?thesis
      by (auto simp: PyTensor t stored_graph_value_def scalar_of_def)
  next
    case PyNone
    with some show ?thesis by simp
  qed (use conv in auto)
qed

lemma graph_loop_stores:
  assumes "for_keys (update_graph_value torch_tensor) keys onehot flds = Inr flds'"
    and "key \<in> set keys"
    and "\<forall>k\<in>set keys. key \<noteq> k @ ''_onehot''"
  shows "getattr flds key \<noteq> PyNone \<and>
         (\<exists>r. stored_graph_value torch_tensor (getattr flds key) onehot = Inr r \<and>
              flds' (key @ ''_onehot'') = Some (PyTensor r))"
  using assms
proof (induction keys arbitrary: flds)
  case Nil
  then show ?case by simp
next
  case (Cons k keys)
  from Cons.prems(1) obtain flds1
    where u: "update_graph_value torch_tensor flds k onehot = Inr flds1"
      and r: "for_keys (update_graph_value torch_tensor) keys onehot flds1 = Inr flds'"
    by (auto split: sum.splits)
  have "key \<noteq> k @ ''_onehot''" using Cons.prems(3) by simp
  from update_graph_value_other [OF u this]
  have same: "getattr flds1 key = getattr flds key" by (simp add: getattr_def)
  show ?case
  proof (cases "key \<in> set keys")
    case True
    from Cons.IH [OF r True] Cons.prems(3) show ?thesis by (simp add: same)
  next
    case False
    with Cons.prems(2) have k: "k = key" by simp
    from u obtain r0 where nn: "getattr flds key \<noteq> PyNone"
      and st: "stored_graph_value torch_tensor (getattr flds key) onehot = Inr r0"
      and f1: "flds1 = flds(key @ ''_onehot'' \<mapsto> PyTensor r0)"
      unfolding k update_graph_value_eq by (auto split: if_splits sum.splits)
    have "\<forall>k'\<in>set keys. key @ ''_onehot'' \<noteq> k' @ ''_onehot''" using False by auto
    from graph_loop_other [OF r this]
    have "flds' (key @ ''_onehot'') = Some (PyTensor r0)" by (simp add: f1)
    with nn st show ?thesis by blast
  qed
qed

text \<open>
  C8 as stated fails in two ways. A configured name that the transform writes itself
  is read after it is written: with \<open>task_idx\<close> among the graph-level names, access to
  an item without that field succeeds, and \<open>task_idx_onehot\<close> holds the position of the
  task. And the slots other than \<open>task_idx\<close> hold the value times zero, which is \<open>nan\<close>
  for an infinite value: an energy that is an infinite float tensor gives the
  \<open>energy_onehot\<close> \<open>[nan, inf]\<close> at position 1 of 2.
\<close>

theorem graph_level_task_idx_counterexample:
  "''task_idx'' \<in> set (graph_level task_idx_targets) \<and>
   ds_getitem (list_dataset [Data Map.empty] []) 0 = Inr (Data Map.empty) \<and>
   Map.empty ''task_idx'' = (None :: pyval option) \<and>
   getitem_of (create_split_dataset (\<lambda>c. Inr (list_dataset [Data Map.empty] []))
                 example_torch_tensor () 1 2 task_idx_targets) 0 = Inr task_idx_tagged_item \<and>
   getitem_of (create_split_dataset (\<lambda>c. Inr (list_dataset [infinite_item] []))
                 example_torch_tensor () 1 2 energy_targets) 0 = Inr infinite_tagged_item"
  by (simp add: getitem_of_def create_split_dataset_def dataset_transform_def list_dataset_def
      deepcopy_def transform_def task_idx_targets_def task_idx_tagged_item_def
      energy_targets_def infinite_item_def infinite_tagged_item_def
      one_hot_def to_bool_def rearrange_t_to_1_t_def update_graph_value_def
      getattr_def view_flat_def rearrange_1_to_1_1_def tensor_mul_def Let_def upt_0_2)

text \<open>
  C8, as amended. Let \<open>key\<close> be a configured graph-level field name that the transform
  does not write itself before it reads it: not \<open>task_idx\<close>, not \<open>task_mask\<close>, and not a
  configured graph-level name followed by \<open>_onehot\<close>. Item access on the tagged
  dataset fails when the item has no field \<open>key\<close>. When it succeeds and \<open>key\<close> is not
  also a node-level name, the value of the field, converted to a float tensor when it
  is not a tensor, has a single element \<open>x\<close>, and the item's \<open>key_onehot\<close> is the tensor
  of shape \<open>(1, total_num_tasks)\<close> with \<open>x\<close> in slot \<open>task_idx\<close> and, in every other
  slot, zero when \<open>x\<close> is finite and \<open>nan\<close> when \<open>x\<close> is an infinity or \<open>nan\<close>.
\<close>

theorem graph_level_onehot_field:
  assumes c: "0 \<le> task_idx" "task_idx < total_num_tasks"
    and key: "key \<in> set (graph_level oht)"
    and a: "key \<noteq> ''task_idx''" "key \<noteq> ''task_mask''"
    and b: "\<forall>k\<in>set (graph_level oht). key \<noteq> k @ ''_onehot''"
    and reg: "registry config = Inr raw"
    and item: "ds_getitem raw i = Inr (Data flds)"
  shows "(flds key = None \<longrightarrow>
           isl (getitem_of (create_split_dataset registry torch_tensor config task_idx
                              total_num_tasks oht) i)) \<and>
         (\<forall>flds'. getitem_of (create_split_dataset registry torch_tensor config task_idx
                               total_num_tasks oht) i = Inr (Data flds') \<and>
                  key \<notin> set (node_level oht) \<longrightarrow>
            (\<exists>dt x. scalar_of torch_tensor (getattr flds key) = Some (dt, x) \<and>
               flds' (key @ ''_onehot'') =
                 Some (PyTensor (Tensor (promote dt TBool) [1, nat total_num_tasks]
                   (map (\<lambda>j. if j = nat task_idx then x else zero_or_nan x)
                      [0..<nat total_num_tasks])))))"
proof -
  define tmask :: "elem list"
    where "tmask = map (\<lambda>j. if j = nat task_idx then Fin 1 else Fin 0) [0..<nat total_num_tasks]"
  define flds2 where "flds2 =
    flds(''task_idx'' \<mapsto> PyTensor (Tensor TLong [] [Fin (of_int task_idx)]),
         ''task_mask'' \<mapsto> PyTensor (Tensor TBool [1, nat total_num_tasks] tmask))"
  have access: "getitem_of (create_split_dataset registry torch_tensor config task_idx
        total_num_tasks oht) i
      = transform torch_tensor task_idx total_num_tasks oht (Data flds)"
    by (simp add: getitem_of_def create_split_dataset_def dataset_transform_def reg item deepcopy_def)
  have same: "getattr flds2 key = getattr flds key"
    using a by (simp add: flds2_def getattr_def)
  have stores: "getattr flds key \<noteq> PyNone \<and>
         (\<exists>r. stored_graph_value torch_tensor (getattr flds key)
                 (Tensor TBool [nat total_num_tasks] tmask) = Inr r \<and>
              flds3 (key @ ''_onehot'') = Some (PyTensor r))"
    if "for_keys (update_graph_value torch_tensor) (graph_level oht)
          (Tensor TBool [nat total_num_tasks] tmask) flds2 = Inr flds3" for flds3
    using graph_loop_stores [OF that key b] by (simp add: same)
  have run: "\<exists>flds3. for_keys (update_graph_value torch_tensor) (graph_level oht)
        (Tensor TBool [nat total_num_tasks] tmask) flds2 = Inr flds3 \<and>
      for_keys update_node_value (node_level oht)
        (Tensor TBool [nat total_num_tasks] tmask) flds3 = Inr flds'"
    if "transform torch_tensor task_idx total_num_tasks oht (Data flds) = Inr (Data flds')"
    for flds'
    using transform_fields [OF c that tmask_def] unfolding flds2_def by auto
  have absent: "isl (transform torch_tensor task_idx total_num_tasks oht (Data flds))"
    if "flds key = None"
  proof (rule ccontr)
    assume "\<not> isl (transform torch_tensor task_idx total_num_tasks oht (Data flds))"
    then obtain data'
      where tr: "transform torch_tensor task_idx total_num_tasks oht (Data flds) = Inr data'"
      by (cases "transform torch_tensor task_idx total_num_tasks oht (Data flds)") auto
    from transform_fields [OF c tr tmask_def] obtain flds' where "data' = Data flds'" by blast
    with tr run obtain flds3 where "for_keys (update_graph_value torch_tensor) (graph_level oht)
        (Tensor TBool [nat total_num_tasks] tmask) flds2 = Inr flds3" by blast
    from stores [OF this] have "getattr flds key \<noteq> PyNone" by blast
    with that show False by (simp add: getattr_def)
  qed
  have present: "\<exists>dt x. scalar_of torch_tensor (getattr flds key) = Some (dt, x) \<and>
               flds' (key @ ''_onehot'') =
                 Some (PyTensor (Tensor (promote dt TBool) [1, nat total_num_tasks]
                   (map (\<lambda>j. if j = nat task_idx then x else zero_or_nan x)
                      [0..<nat total_num_tasks])))"
    if tr: "transform torch_tensor task_idx total_num_tasks oht (Data flds) = Inr (Data flds')"
      and nl: "key \<notin> set (node_level oht)" for flds'
  proof -
    from run [OF tr] obtain flds3
      where g: "for_keys (update_graph_value torch_tensor) (graph_level oht)
        (Tensor TBool [nat total_num_tasks] tmask) flds2 = Inr flds3"
      and n: "for_keys update_node_value (node_level oht)
        (Tensor TBool [nat total_num_tasks] tmask) flds3 = Inr flds'"
      by blast
    from stores [OF g] obtain r
      where nn: "getattr flds key \<noteq> PyNone"
        and st: "stored_graph_value torch_tensor (getattr flds key)
                   (Tensor TBool [nat total_num_tasks] tmask) = Inr r"
        and f3: "flds3 (key @ ''_onehot'') = Some (PyTensor r)"
      by blast
    have "\<forall>k\<in>set (node_level oht). key @ ''_onehot'' \<noteq> k @ ''_onehot''" using nl by auto
    from node_loop_other [OF n this] f3
    have f4: "flds' (key @ ''_onehot'') = Some (PyTensor r)" by simp
    from stored_graph_value_one_hot [OF st [unfolded tmask_def] nn] f4
    show ?thesis by auto
  qed
  from absent present show ?thesis unfolding access by blast
qed

theorem graph_level_onehot_field_witness:
  "(0::int) \<le> 1 \<and> (1::int) < 3 \<and> ''energy'' \<in> set (graph_level example_targets) \<and>
   ''energy'' \<noteq> ''task_idx'' \<and> ''energy'' \<noteq> ''task_mask'' \<and>
   list_all (\<lambda>k. ''energy'' \<noteq> k @ ''_onehot'') (graph_level example_targets) \<and>
   ''energy'' \<notin> set (node_level example_targets) \<and>
   ds_getitem example_dataset 0 =
     Inr (Data [''energy'' \<mapsto> PyFloat (Fin 3),
                ''forces'' \<mapsto> PyTensor (Tensor TFloat [2] [Fin 5, Fin 7])]) \<and>
   getitem_of (create_split_dataset (\<lambda>c. Inr example_dataset) example_torch_tensor () 1 3
                 example_targets) 0 =
     Inr example_tagged_item \<and>
   scalar_of example_torch_tensor (PyFloat (Fin 3)) = Some (TFloat, Fin 3) \<and>
   (\<exists>flds'. example_tagged_item = Data flds' \<and>
      flds' ''energy_onehot'' = Some (PyTensor (Tensor TFloat [1, 3] [Fin 0, Fin 3, Fin 0])))"
proof -
  have h1: "(0::int) \<le> 1" and h2: "(1::int) < 3" by simp_all
  have key: "''energy'' \<in> set (graph_level example_targets)"
    by (simp add: example_targets_def)
  have a1: "''energy'' \<noteq> ''task_idx''" and a2: "''energy'' \<noteq> ''task_mask''" by simp_all
  have b: "\<forall>k\<in>set (graph_level example_targets). ''energy'' \<noteq> k @ ''_onehot''"
    by (simp add: example_targets_def)
  have nl: "''energy'' \<notin> set (node_level example_targets)"
    by (simp add: example_targets_def)
  have item: "ds_getitem example_dataset 0 =
     Inr (Data [''energy'' \<mapsto> PyFloat (Fin 3),
                ''forces'' \<mapsto> PyTensor (Tensor TFloat [2] [Fin 5, Fin 7])])"
    by (simp add: example_dataset_def list_dataset_def example_item_def)
  have tagged: "getitem_of (create_split_dataset (\<lambda>c. Inr example_dataset)
        example_torch_tensor () 1 3 example_targets) 0 =
     Inr (Data [''energy'' \<mapsto> PyFloat (Fin 3),
           ''forces'' \<mapsto> PyTensor (Tensor TFloat [2] [Fin 5, Fin 7]),
           ''task_idx'' \<mapsto> PyTensor (Tensor TLong [] [Fin 1]),
           ''task_mask'' \<mapsto> PyTensor (Tensor TBool [1, 3] [Fin 0, Fin 1, Fin 0]),
           ''energy_onehot'' \<mapsto> PyTensor (Tensor TFloat [1, 3] [Fin 0, Fin 3, Fin 0]),
           ''forces_onehot'' \<mapsto>
             PyTensor (Tensor TFloat [2, 3] [Fin 0, Fin 5, Fin 0, Fin 0, Fin 7, Fin 0])])"
    using example_access by (simp add: example_tagged_item_def)
  from graph_level_onehot_field [where registry = "\<lambda>c::unit. Inr example_dataset"
      and config = "()" and raw = example_dataset and torch_tensor = example_torch_tensor,
      OF h1 h2 key a1 a2 b refl item] tagged nl
  have "\<exists>dt x. scalar_of example_torch_tensor
           (getattr [''energy'' \<mapsto> PyFloat (Fin 3),
                     ''forces'' \<mapsto> PyTensor (Tensor TFloat [2] [Fin 5, Fin 7])] ''energy'')
         = Some (dt, x)"
    by blast
  with key a1 a2 b nl item example_access show ?thesis
    by (simp add: example_tagged_item_def example_targets_def scalar_of_def
        example_torch_tensor_def)
qed

end
